theory Spec2Isabelle
  imports Main
begin

section \<open>Python values of the actor runtime\<close>

text \<open>
  The exceptions that \<^verbatim>\<open>spinoff/actor/node.py\<close> and
  \<^verbatim>\<open>unnamedframework/util/process.py\<close> raise themselves or let through from the
  collaborators they call. \<open>LookupFailed\<close> is imported from
  \<^verbatim>\<open>spinoff.actor.exceptions\<close>, \<open>PicklingError\<close> from \<^verbatim>\<open>cPickle\<close>;
  \<open>TypeError\<close>, \<open>AttributeError\<close> and \<open>AssertionError\<close> are Python built-ins.
  Any other exception class a collaborator may raise is \<open>OtherError\<close> with the
  name of its class.
\<close>

datatype exn =
    LookupFailed
  | TypeError
  | AttributeError
  | PicklingError
  | AssertionError
  | OtherError string

text \<open>
  Modelled from the spec: the class \<^verbatim>\<open>Uri\<close> (\<^verbatim>\<open>spinoff/actor/uri.py\<close>) is not
  part of the sources at hand. The data model gives it an optional node id, a path and
  the flag \<open>root\<close>; \<^verbatim>\<open>node.py\<close> reads \<^verbatim>\<open>uri.node\<close>, \<^verbatim>\<open>uri.path\<close> and
  \<^verbatim>\<open>uri.root\<close> only.
\<close>

record Uri =
  node :: "string option"
  path :: string
  root :: bool

text \<open>
  Python truth of \<^verbatim>\<open>uri.node\<close>: \<^verbatim>\<open>None\<close> and the empty string are false, every
  other string is true.
\<close>

definition truthy :: "string option \<Rightarrow> bool" where
  "truthy s = (case s of None \<Rightarrow> False | Some t \<Rightarrow> t \<noteq> [])"

text \<open>A cell is an opaque handle owned by the guardian.\<close>

datatype Cell = Cell nat

text \<open>
  \<^verbatim>\<open>Ref(cell=..., uri=..., is_local=..., node=...)\<close>. The \<^verbatim>\<open>node\<close> argument is a
  reference to a \<^verbatim>\<open>Node\<close> object; it is kept as that object's identity \<open>oid\<close>
  and is absent where the source does not pass it.
\<close>

record Ref =
  cell :: "Cell option"
  uri :: Uri
  is_local :: bool
  ref_node :: "nat option"

text \<open>Messages are Python values: strings, numbers, Refs and tuples of values.\<close>

datatype pyval =
    PNone
  | PStr string
  | PInt int
  | PRef Ref
  | PTuple "pyval list"

text \<open>
  Modelled from the spec: \<^verbatim>\<open>ANY\<close> of \<^verbatim>\<open>spinoff.util.pattern_matching\<close> is not
  part of the sources at hand; it compares equal to every value. So
  \<^verbatim>\<open>(tag, ANY) == message\<close> holds exactly for the tuples of length two whose first
  component is the string \<open>tag\<close>; \<open>match_pair\<close> also hands back the second component,
  as the unpacking \<^verbatim>\<open>_, watcher = message\<close> does.
\<close>

fun match_pair :: "string \<Rightarrow> pyval \<Rightarrow> pyval option" where
  "match_pair tag (PTuple [PStr t, x]) = (if t = tag then Some x else None)"
| "match_pair tag _ = None"

definition matches_tag :: "string \<Rightarrow> pyval \<Rightarrow> bool" where
  "matches_tag tag m = (match_pair tag m \<noteq> None)"

text \<open>The events given to \<^verbatim>\<open>Events.log\<close>.\<close>

datatype event =
    DeadLetter Ref pyval
  | RemoteDeadLetter Ref pyval string

text \<open>\<^verbatim>\<open>class _Msg\<close>: the destination Ref and the message, as handed to the hub.\<close>

record Msg =
  ref :: Ref
  msg :: pyval

text \<open>
  What the node does to its collaborators, in the order it does it:
  \<^verbatim>\<open>ref << message\<close>, \<^verbatim>\<open>cell.receive(message)\<close>, \<^verbatim>\<open>Events.log(event)\<close>,
  \<^verbatim>\<open>guardian.stop()\<close>, \<^verbatim>\<open>hub.stop()\<close> and \<^verbatim>\<open>hub.send_message(nid, _Msg(...))\<close>.
\<close>

datatype effect =
    Tell Ref pyval
  | CellReceive Cell pyval
  | EventsLog event
  | GuardianStop
  | HubStop
  | HubSendMessage "string option" Msg

text \<open>
  The guardian is an external collaborator: \<^verbatim>\<open>lookup_ref\<close> returns a Ref or raises,
  \<^verbatim>\<open>lookup_cell\<close> returns a cell or \<^verbatim>\<open>None\<close>.
\<close>

record Guardian =
  lookup_ref :: "Uri \<Rightarrow> exn + Ref"
  lookup_cell :: "Uri \<Rightarrow> Cell option"

datatype Hub =
    HubWithNoRemoting
  | Hub "string option" bool

section \<open>\<^verbatim>\<open>class Node\<close>\<close>

text \<open>
  The fields \<^verbatim>\<open>nid\<close>, \<^verbatim>\<open>_uri\<close> (here \<open>own_uri\<close>), \<^verbatim>\<open>guardian\<close> and
  \<^verbatim>\<open>_hub\<close> (here \<open>hub\<close>); \<open>oid\<close> is the identity of the object. \<^verbatim>\<open>stop\<close> sets
  \<^verbatim>\<open>guardian\<close> and \<^verbatim>\<open>_hub\<close> to \<^verbatim>\<open>None\<close>.
\<close>

record Node =
  oid :: nat
  nid :: "string option"
  own_uri :: Uri
  guardian :: "Guardian option"
  hub :: "Hub option"

text \<open>
  \<^verbatim>\<open>__init__\<close>. The guardian built by \<^verbatim>\<open>Guardian(uri=self._uri, node=self)\<close> is
  a parameter; \<^verbatim>\<open>Uri(name=None, parent=None, node=nid)\<close> is the root uri of the node.
\<close>

definition Node_init :: "nat \<Rightarrow> string option \<Rightarrow> bool \<Rightarrow> bool \<Rightarrow> Guardian \<Rightarrow> Node" where
  "Node_init i n enable_remoting enable_relay g =
     \<lparr>oid = i, nid = n,
      own_uri = \<lparr>node = n, path = [], root = True\<rparr>,
      guardian = Some g,
      hub = Some (if \<not> enable_remoting then HubWithNoRemoting else Hub n enable_relay)\<rparr>"

subsection \<open>\<^verbatim>\<open>lookup\<close>\<close>

text \<open>
  The clause \<^verbatim>\<open>except LookupFailed if uri.node else None:\<close> computes what it
  catches when an exception arrives: the class \<^verbatim>\<open>LookupFailed\<close> for a true
  \<^verbatim>\<open>uri.node\<close>, the object \<^verbatim>\<open>None\<close> otherwise.
\<close>

definition except_clause :: "Uri \<Rightarrow> exn option" where
  "except_clause u = (if truthy (node u) then Some LookupFailed else None)"

text \<open>
  The module is Python 2 (it imports \<^verbatim>\<open>cPickle\<close> and \<^verbatim>\<open>cStringIO\<close>). There an
  \<^verbatim>\<open>except\<close> clause whose expression is \<^verbatim>\<open>None\<close> matches no exception and raises
  nothing itself, so the exception in flight goes on to the caller.
\<close>

fun exc_matches :: "exn option \<Rightarrow> exn \<Rightarrow> bool" where
  "exc_matches None e = False"
| "exc_matches (Some c) e = (e = c)"

definition lookup :: "Node \<Rightarrow> Uri \<Rightarrow> exn + Ref" where
  "lookup self u =
     (if \<not> truthy (node u) \<or> node u = node (own_uri self) then
        (case guardian self of
           None \<Rightarrow> Inl AttributeError
         | Some g \<Rightarrow>
             (case lookup_ref g u of
                Inr r \<Rightarrow> Inr r
              | Inl e \<Rightarrow>
                  if exc_matches (except_clause u) e
                  then Inr \<lparr>cell = None, uri = u, is_local = True, ref_node = None\<rparr>
                  else Inl e))
      else if \<not> root u then Inl TypeError
      else Inr \<lparr>cell = None, uri = u, is_local = False, ref_node = Some (oid self)\<rparr>)"

subsection \<open>\<^verbatim>\<open>send_message\<close> and \<^verbatim>\<open>_Msg.send_failed\<close>\<close>

text \<open>
  \<^verbatim>\<open>self._hub.send_message(remote_ref.uri.node, _Msg(remote_ref, message))\<close>: with
  \<^verbatim>\<open>_hub\<close> cleared the attribute access on \<^verbatim>\<open>None\<close> raises \<open>AttributeError\<close>.
\<close>

definition send_message :: "Node \<Rightarrow> pyval \<Rightarrow> Ref \<Rightarrow> effect list \<times> exn option" where
  "send_message self message remote_ref =
     (case hub self of
        None \<Rightarrow> ([], Some AttributeError)
      | Some h \<Rightarrow>
          ([HubSendMessage (node (uri remote_ref)) \<lparr>ref = remote_ref, msg = message\<rparr>], None))"

definition send_failed :: "Msg \<Rightarrow> effect list" where
  "send_failed m =
     (if \<not> (matches_tag ''_unwatched'' (msg m) \<or> matches_tag ''_watched'' (msg m))
      then [EventsLog (DeadLetter (ref m) (msg m))]
      else [])"

subsection \<open>\<^verbatim>\<open>_on_receive\<close> and \<^verbatim>\<open>_remote_dead_letter\<close>\<close>

text \<open>
  \<^verbatim>\<open>watcher << message\<close>: a Ref is told the message (\<^verbatim>\<open>Ref.__lshift__\<close>); the other
  values of the model have no left shift by a tuple and raise \<open>TypeError\<close>.
\<close>

fun lshift :: "pyval \<Rightarrow> pyval \<Rightarrow> effect list \<times> exn option" where
  "lshift (PRef r) m = ([Tell r m], None)"
| "lshift _ m = ([], Some TypeError)"

text \<open>
  \<^verbatim>\<open>Uri.parse\<close> is a parameter (\<open>parse\<close>): it returns a Uri or raises.
  \<^verbatim>\<open>self.nid + path\<close> raises \<open>TypeError\<close> when \<^verbatim>\<open>nid\<close> is \<^verbatim>\<open>None\<close>.
\<close>

definition remote_dead_letter ::
  "(string \<Rightarrow> exn + Uri) \<Rightarrow> Node \<Rightarrow> string \<Rightarrow> pyval \<Rightarrow> string \<Rightarrow> effect list \<times> exn option" where
  "remote_dead_letter parse self p m sender =
     (case nid self of
        None \<Rightarrow> ([], Some TypeError)
      | Some n \<Rightarrow>
          (case parse (n @ p) of
             Inl e \<Rightarrow> ([], Some e)
           | Inr u \<Rightarrow>
               if \<not> (matches_tag ''_unwatched'' m \<or> matches_tag ''_watched'' m)
               then ([EventsLog (RemoteDeadLetter
                        \<lparr>cell = None, uri = u, is_local = True, ref_node = None\<rparr> m sender)], None)
               else ([], None)))"

text \<open>
  \<^verbatim>\<open>_on_receive(sender_nid, msg_bytes)\<close>. The unpickler bound to this node is the
  parameter \<open>load\<close>: it returns the pair \<^verbatim>\<open>(local_path, message)\<close> or raises. In
  \<^verbatim>\<open>self.guardian.lookup_cell(Uri.parse(local_path))\<close> the attribute access comes
  before the argument is evaluated.
\<close>

definition on_receive ::
  "(string \<Rightarrow> exn + string \<times> pyval) \<Rightarrow> (string \<Rightarrow> exn + Uri) \<Rightarrow> Node \<Rightarrow> string \<Rightarrow> string
     \<Rightarrow> effect list \<times> exn option" where
  "on_receive load parse self sender_nid msg_bytes =
     (case load msg_bytes of
        Inl e \<Rightarrow> ([], Some e)
      | Inr (local_path, message) \<Rightarrow>
          (case guardian self of
             None \<Rightarrow> ([], Some AttributeError)
           | Some g \<Rightarrow>
               (case parse local_path of
                  Inl e \<Rightarrow> ([], Some e)
                | Inr u \<Rightarrow>
                    (case lookup_cell g u of
                       Some c \<Rightarrow> ([CellReceive c message], None)
                     | None \<Rightarrow>
                         (case match_pair ''_watched'' message of
                            Some watcher \<Rightarrow>
                              (case nid self of
                                 None \<Rightarrow> ([], Some TypeError)
                               | Some n \<Rightarrow>
                                   (case parse (n @ local_path) of
                                      Inl e \<Rightarrow> ([], Some e)
                                    | Inr wu \<Rightarrow>
                                        lshift watcher
                                          (PTuple [PStr ''terminated'',
                                             PRef \<lparr>cell = None, uri = wu, is_local = True,
                                                   ref_node = None\<rparr>])))
                          | None \<Rightarrow>
                              if matches_tag ''terminated'' message
                                 \<or> matches_tag ''_watched'' message
                                 \<or> matches_tag ''_unwatched'' message
                              then ([], None)
                              else remote_dead_letter parse self local_path message sender_nid)))))"

subsection \<open>\<^verbatim>\<open>stop\<close> and \<^verbatim>\<open>__getstate__\<close>\<close>

text \<open>
  \<^verbatim>\<open>getattr(self, 'guardian', None)\<close> is true for a guardian object and false for
  \<^verbatim>\<open>None\<close>; the same for \<^verbatim>\<open>_hub\<close>.
\<close>

definition stop :: "Node \<Rightarrow> Node \<times> effect list" where
  "stop self =
     (let (s1, e1) = (case guardian self of
                        Some g \<Rightarrow> (self\<lparr>guardian := None\<rparr>, [GuardianStop])
                      | None \<Rightarrow> (self, []));
          (s2, e2) = (case hub s1 of
                        Some h \<Rightarrow> (s1\<lparr>hub := None\<rparr>, [HubStop])
                      | None \<Rightarrow> (s1, []))
      in (s2, e1 @ e2))"

definition getstate :: "Node \<Rightarrow> exn + pyval" where
  "getstate self = Inl PicklingError"

section \<open>\<^verbatim>\<open>unnamedframework/util/process.py\<close>\<close>

definition ALLOWED_TERMINATION_SIGNALS :: "string list" where
  "ALLOWED_TERMINATION_SIGNALS = [''KILL'', ''TERM'', ''INT'']"

text \<open>
  \<^verbatim>\<open>class GenericProcessProtocol\<close>: the signal its canceller sends, the chunks
  received on stdout and on stderr, and \<^verbatim>\<open>_killed\<close>.
\<close>

record GenericProcessProtocol =
  canceller_signal :: string
  stdout_output :: "string list"
  stderr_output :: "string list"
  killed :: bool

definition GenericProcessProtocol_init :: "string \<Rightarrow> GenericProcessProtocol" where
  "GenericProcessProtocol_init termination_signal =
     \<lparr>canceller_signal = termination_signal, stdout_output = [], stderr_output = [],
      killed = False\<rparr>"

text \<open>\<^verbatim>\<open>ProcessFailed(exitCode, stderr_output)\<close>; an exit code may be \<^verbatim>\<open>None\<close>.\<close>

datatype ProcessFailed = ProcessFailed "int option" "string list"

text \<open>
  \<^verbatim>\<open>status.value\<close>, the reason Twisted gives for the end of the process:
  \<^verbatim>\<open>ProcessTerminated\<close> with its exit code and signal, \<^verbatim>\<open>ProcessDone\<close>, or an
  object of another class.
\<close>

datatype reason =
    ProcessDone
  | ProcessTerminated "int option" "int option"
  | OtherReason string

datatype proc_effect =
    SpawnProcess GenericProcessProtocol string "string list" "(string \<times> string) list option"
  | SignalProcess string
  | Callback "string list"
  | Errback ProcessFailed

text \<open>\<^verbatim>\<open>os.path.basename\<close>: what follows the last slash.\<close>

definition basename :: "string \<Rightarrow> string" where
  "basename p = rev (takeWhile (\<lambda>c. c \<noteq> CHR ''/'') (rev p))"

definition spawn_process ::
  "string \<Rightarrow> string list \<Rightarrow> (string \<times> string) list option \<Rightarrow> string
     \<Rightarrow> proc_effect list \<times> (exn + GenericProcessProtocol)" where
  "spawn_process executable args env termination_signal =
     (if termination_signal \<in> set ALLOWED_TERMINATION_SIGNALS then
        (let protocol = GenericProcessProtocol_init termination_signal in
           ([SpawnProcess protocol executable (basename executable # args) env], Inr protocol))
      else ([], Inl AssertionError))"

definition kill :: "GenericProcessProtocol \<Rightarrow> string \<Rightarrow> GenericProcessProtocol \<times> proc_effect list" where
  "kill self signal_name = (self\<lparr>killed := True\<rparr>, [SignalProcess signal_name])"

definition outReceived :: "GenericProcessProtocol \<Rightarrow> string \<Rightarrow> GenericProcessProtocol" where
  "outReceived self data = self\<lparr>stdout_output := stdout_output self @ [data]\<rparr>"

definition errReceived :: "GenericProcessProtocol \<Rightarrow> string \<Rightarrow> GenericProcessProtocol" where
  "errReceived self data = self\<lparr>stderr_output := stderr_output self @ [data]\<rparr>"

definition processEnded :: "GenericProcessProtocol \<Rightarrow> reason \<Rightarrow> proc_effect list" where
  "processEnded self status_value =
     (if \<not> killed self then
        (case status_value of
           ProcessTerminated exitCode sig \<Rightarrow> [Errback (ProcessFailed exitCode (stderr_output self))]
         | _ \<Rightarrow> [Callback (stdout_output self)])
      else [])"

text \<open>
  What Twisted does to a protocol before the process ends: chunks arrive on stdout and
  stderr, and the Deferred may be cancelled, which runs the canceller
  \<^verbatim>\<open>lambda _: self._kill(termination_signal)\<close>.
\<close>

datatype proto_event = OutData string | ErrData string | Cancel

fun feed :: "GenericProcessProtocol \<Rightarrow> proto_event \<Rightarrow> GenericProcessProtocol" where
  "feed p (OutData d) = outReceived p d"
| "feed p (ErrData d) = errReceived p d"
| "feed p Cancel = fst (kill p (canceller_signal p))"

text \<open>The chunks of a run of events, in the order they arrived.\<close>

definition outs :: "proto_event list \<Rightarrow> string list" where
  "outs evs = concat (map (\<lambda>e. case e of OutData d \<Rightarrow> [d] | _ \<Rightarrow> []) evs)"

definition errs :: "proto_event list \<Rightarrow> string list" where
  "errs evs = concat (map (\<lambda>e. case e of ErrData d \<Rightarrow> [d] | _ \<Rightarrow> []) evs)"

section \<open>Two concrete nodes\<close>

text \<open>
  Node A and node B of the scenario in the specification: B's guardian has no actor, so
  every \<^verbatim>\<open>lookup_ref\<close> raises \<open>LookupFailed\<close> and every \<^verbatim>\<open>lookup_cell\<close> is
  \<^verbatim>\<open>None\<close>. \<open>split_address\<close> stands for \<^verbatim>\<open>Uri.parse\<close> on addresses of the form
  \<^verbatim>\<open><node-id><path>\<close>, and \<open>envelopes\<close> for the unpickler on two byte strings.
\<close>

definition empty_guardian :: Guardian where
  "empty_guardian = \<lparr>lookup_ref = (\<lambda>u. Inl LookupFailed), lookup_cell = (\<lambda>u. None)\<rparr>"

definition node_A :: Node where
  "node_A = Node_init 1 (Some ''A'') True False empty_guardian"

definition node_B :: Node where
  "node_B = Node_init 2 (Some ''B'') True False empty_guardian"

definition split_address :: "string \<Rightarrow> exn + Uri" where
  "split_address s =
     (let n = takeWhile (\<lambda>c. c \<noteq> CHR ''/'') s; p = dropWhile (\<lambda>c. c \<noteq> CHR ''/'') s
      in Inr \<lparr>node = (if n = [] then None else Some n), path = p, root = (p = [])\<rparr>)"

definition watcher_on_A :: Ref where
  "watcher_on_A =
     \<lparr>cell = None, uri = \<lparr>node = Some ''A'', path = ''/watcher'', root = False\<rparr>,
      is_local = False, ref_node = Some 2\<rparr>"

definition envelopes :: "string \<Rightarrow> exn + string \<times> pyval" where
  "envelopes b =
     (if b = ''watch'' then Inr (''/worker'', PTuple [PStr ''_watched'', PRef watcher_on_A])
      else if b = ''ping'' then Inr (''/worker'', PStr ''ping'')
      else Inl (OtherError ''UnpicklingError''))"

section \<open>Properties of \<^verbatim>\<open>Node\<close>\<close>

subsection \<open>Auxiliary facts\<close>

lemma match_pair_Some_iff: "match_pair tag m = Some x \<longleftrightarrow> m = PTuple [PStr tag, x]"
  by (induction tag m rule: match_pair.induct) auto

lemma matches_tag_iff: "matches_tag tag m \<longleftrightarrow> (\<exists>x. m = PTuple [PStr tag, x])"
  by (cases "match_pair tag m") (auto simp: matches_tag_def match_pair_Some_iff)

lemma lshift_effects: "fst (lshift w m) = [] \<or> (\<exists>r. fst (lshift w m) = [Tell r m])"
  by (cases w) simp_all

text \<open>
  \<^verbatim>\<open>__init__\<close> makes the node of \<^verbatim>\<open>_uri\<close> the \<^verbatim>\<open>nid\<close>, and \<^verbatim>\<open>stop\<close> changes
  neither.
\<close>

lemma Node_init_own_uri: "node (own_uri (Node_init i n rem rel g)) = nid (Node_init i n rem rel g)"
  by (simp add: Node_init_def)

lemma stop_keeps_identity:
  "nid (fst (stop s)) = nid s \<and> own_uri (fst (stop s)) = own_uri s \<and> oid (fst (stop s)) = oid s"
  by (cases "guardian s"; cases "hub s") (simp_all add: stop_def)

subsection \<open>\<^verbatim>\<open>lookup\<close>\<close>

text \<open>
  Claim C1. For a uri whose node component is given (a non-empty string) and equals the
  node's own \<^verbatim>\<open>nid\<close>: when the guardian's \<^verbatim>\<open>lookup_ref\<close> raises \<open>LookupFailed\<close>,
  \<^verbatim>\<open>lookup\<close> returns a dead local Ref (no cell, \<^verbatim>\<open>is_local\<close> true, the requested
  uri) instead of raising.
\<close>

theorem lookup_own_node_dead_ref:
  assumes "truthy (node u)" and "node u = nid self" and "node (own_uri self) = nid self"
    and "guardian self = Some g" and "lookup_ref g u = Inl LookupFailed"
  shows "lookup self u = Inr \<lparr>cell = None, uri = u, is_local = True, ref_node = None\<rparr>"
  using assms by (simp add: lookup_def except_clause_def)

text \<open>C1 at node A and the uri \<^verbatim>\<open>A/worker\<close>.\<close>

theorem lookup_own_node_dead_ref_witness:
  "truthy (Some ''A'')
   \<and> lookup_ref empty_guardian \<lparr>node = Some ''A'', path = ''/worker'', root = False\<rparr>
       = Inl LookupFailed
   \<and> lookup node_A \<lparr>node = Some ''A'', path = ''/worker'', root = False\<rparr> =
       Inr \<lparr>cell = None, uri = \<lparr>node = Some ''A'', path = ''/worker'', root = False\<rparr>,
            is_local = True, ref_node = None\<rparr>"
proof -
  let ?u = "\<lparr>node = Some ''A'', path = ''/worker'', root = False\<rparr>"
  have h1: "truthy (node ?u)" by (simp add: truthy_def)
  have h2: "node ?u = nid node_A" by (simp add: node_A_def Node_init_def)
  have h3: "node (own_uri node_A) = nid node_A" by (simp add: node_A_def Node_init_def)
  have h4: "guardian node_A = Some empty_guardian" by (simp add: node_A_def Node_init_def)
  have h5: "lookup_ref empty_guardian ?u = Inl LookupFailed" by (simp add: empty_guardian_def)
  show ?thesis
    using lookup_own_node_dead_ref [OF h1 h2 h3 h4 h5] h1 h5 by simp
qed

text \<open>
  Claim C2. For a uri whose node component is empty (\<^verbatim>\<open>None\<close> or the empty string):
  when the guardian's \<^verbatim>\<open>lookup_ref\<close> raises \<open>LookupFailed\<close>, \<^verbatim>\<open>lookup\<close> lets that
  \<open>LookupFailed\<close> through to its caller.
\<close>

theorem lookup_unspecified_node_surfaces:
  assumes "\<not> truthy (node u)" and "guardian self = Some g"
    and "lookup_ref g u = Inl LookupFailed"
  shows "lookup self u = Inl LookupFailed"
  using assms by (simp add: lookup_def except_clause_def)

text \<open>C2 at node A and the uri \<^verbatim>\<open>/worker\<close> with no node.\<close>

theorem lookup_unspecified_node_surfaces_witness:
  "\<not> truthy None
   \<and> lookup node_A \<lparr>node = None, path = ''/worker'', root = False\<rparr> = Inl LookupFailed"
proof -
  let ?u = "\<lparr>node = None, path = ''/worker'', root = False\<rparr>"
  have h1: "\<not> truthy (node ?u)" by (simp add: truthy_def)
  have h2: "guardian node_A = Some empty_guardian" by (simp add: node_A_def Node_init_def)
  have h3: "lookup_ref empty_guardian ?u = Inl LookupFailed" by (simp add: empty_guardian_def)
  show ?thesis
    using lookup_unspecified_node_surfaces [OF h1 h2 h3] h1 by simp
qed

text \<open>
  Claim C3, as the code has it. For a uri whose node component is given and differs from
  the node's own \<^verbatim>\<open>nid\<close>: a rooted uri gives a remote Ref (\<^verbatim>\<open>is_local\<close> false, no
  cell) bound to this node; a non-root uri makes \<^verbatim>\<open>lookup\<close> raise the built-in
  \<open>TypeError\<close>.
\<close>

theorem lookup_foreign_node:
  assumes "truthy (node u)" and "node u \<noteq> nid self" and "node (own_uri self) = nid self"
  shows "lookup self u =
           (if root u
            then Inr \<lparr>cell = None, uri = u, is_local = False, ref_node = Some (oid self)\<rparr>
            else Inl TypeError)"
  using assms by (simp add: lookup_def)

text \<open>C3 at node A and the rooted uri of node B.\<close>

theorem lookup_foreign_node_witness:
  "truthy (Some ''B'')
   \<and> lookup node_A \<lparr>node = Some ''B'', path = [], root = True\<rparr> =
       Inr \<lparr>cell = None, uri = \<lparr>node = Some ''B'', path = [], root = True\<rparr>,
            is_local = False, ref_node = Some 1\<rparr>"
proof -
  let ?u = "\<lparr>node = Some ''B'', path = [], root = True\<rparr>"
  have h1: "truthy (node ?u)" by (simp add: truthy_def)
  have h2: "node ?u \<noteq> nid node_A" by (simp add: node_A_def Node_init_def)
  have h3: "node (own_uri node_A) = nid node_A" by (simp add: node_A_def Node_init_def)
  have "oid node_A = 1" by (simp add: node_A_def Node_init_def)
  then show ?thesis
    using lookup_foreign_node [OF h1 h2 h3] h1 by simp
qed

text \<open>
  The claim names the failure \<^verbatim>\<open>InvalidUri\<close>. At node A the relative uri
  \<^verbatim>\<open>B/worker\<close> raises \<open>TypeError\<close>, which is not an exception of a class
  \<^verbatim>\<open>InvalidUri\<close>.
\<close>

theorem lookup_foreign_relative_counterexample:
  "lookup node_A \<lparr>node = Some ''B'', path = ''/worker'', root = False\<rparr> = Inl TypeError
   \<and> lookup node_A \<lparr>node = Some ''B'', path = ''/worker'', root = False\<rparr>
       \<noteq> Inl (OtherError ''InvalidUri'')"
  by (simp add: lookup_def node_A_def Node_init_def truthy_def)

subsection \<open>\<^verbatim>\<open>_on_receive\<close>\<close>

text \<open>
  Claim C4. An inbound envelope whose destination path has no live cell and whose message
  is \<^verbatim>\<open>('_watched', watcher)\<close>: the watcher is told exactly one message,
  \<^verbatim>\<open>('terminated', dead_ref)\<close>, where \<^verbatim>\<open>dead_ref\<close> is a dead local Ref (no cell,
  \<^verbatim>\<open>is_local\<close> true) whose uri is the requested path on the receiving node, that is
  \<^verbatim>\<open>Uri.parse(self.nid + local_path)\<close>. Nothing else happens and nothing is raised.
\<close>

theorem on_receive_watched_missing_cell:
  assumes "load msg_bytes = Inr (local_path, PTuple [PStr ''_watched'', PRef watcher])"
    and "guardian self = Some g"
    and "parse local_path = Inr u" and "lookup_cell g u = None"
    and "nid self = Some n" and "parse (n @ local_path) = Inr wu"
  shows "on_receive load parse self sender_nid msg_bytes =
           ([Tell watcher (PTuple [PStr ''terminated'',
               PRef \<lparr>cell = None, uri = wu, is_local = True, ref_node = None\<rparr>])], None)"
  using assms by (simp add: on_receive_def)

text \<open>C4 at node B, for a watch request from node A on the missing \<^verbatim>\<open>/worker\<close>.\<close>

theorem on_receive_watched_missing_cell_witness:
  "envelopes ''watch'' = Inr (''/worker'', PTuple [PStr ''_watched'', PRef watcher_on_A])
   \<and> lookup_cell empty_guardian \<lparr>node = None, path = ''/worker'', root = False\<rparr> = None
   \<and> on_receive envelopes split_address node_B ''A'' ''watch'' =
       ([Tell watcher_on_A (PTuple [PStr ''terminated'',
           PRef \<lparr>cell = None, uri = \<lparr>node = Some ''B'', path = ''/worker'', root = False\<rparr>,
                 is_local = True, ref_node = None\<rparr>])], None)"
proof -
  let ?u = "\<lparr>node = None, path = ''/worker'', root = False\<rparr>"
  let ?wu = "\<lparr>node = Some ''B'', path = ''/worker'', root = False\<rparr>"
  have h1: "envelopes ''watch'' = Inr (''/worker'', PTuple [PStr ''_watched'', PRef watcher_on_A])"
    by (simp add: envelopes_def)
  have h2: "guardian node_B = Some empty_guardian" by (simp add: node_B_def Node_init_def)
  have h3: "split_address ''/worker'' = Inr ?u" by (simp add: split_address_def)
  have h4: "lookup_cell empty_guardian ?u = None" by (simp add: empty_guardian_def)
  have h5: "nid node_B = Some ''B''" by (simp add: node_B_def Node_init_def)
  have h6: "split_address (''B'' @ ''/worker'') = Inr ?wu" by (simp add: split_address_def)
  show ?thesis
    using on_receive_watched_missing_cell
            [where load = envelopes and parse = split_address and msg_bytes = "''watch''"
               and sender_nid = "''A''", OF h1 h2 h3 h4 h5 h6] h1 h4
    by simp
qed

lemma no_dead_letter_when_watched:
  assumes "match_pair ''_watched'' message = Some w"
    and "load msg_bytes = Inr (local_path, message)" and "guardian self = Some g"
    and "parse local_path = Inr u" and "lookup_cell g u = None"
  shows "EventsLog ev \<notin> set (fst (on_receive load parse self sender_nid msg_bytes))"
proof -
  let ?t = "\<lambda>wu. PTuple [PStr ''terminated'',
               PRef \<lparr>cell = None, uri = wu, is_local = True, ref_node = None\<rparr>]"
  have "EventsLog ev \<notin> set (fst (lshift w (?t wu)))" for wu
    using lshift_effects [of w "?t wu"] by auto
  then show ?thesis
    using assms by (simp add: on_receive_def split: option.splits sum.splits)
qed

text \<open>
  Claim C5. An inbound message for a destination path with no live cell: when the message
  matches \<^verbatim>\<open>('terminated', _)\<close>, \<^verbatim>\<open>('_watched', _)\<close> or \<^verbatim>\<open>('_unwatched', _)\<close>
  no \<^verbatim>\<open>RemoteDeadLetter\<close> event is logged; for every other message exactly one event
  is logged, a \<^verbatim>\<open>RemoteDeadLetter\<close> carrying a dead local Ref for the target path on
  this node, the message and the sender's node id.
\<close>

theorem on_receive_missing_cell_dead_letter:
  assumes "load msg_bytes = Inr (local_path, message)" and "guardian self = Some g"
    and "parse local_path = Inr u" and "lookup_cell g u = None"
  shows "(matches_tag ''terminated'' message \<or> matches_tag ''_watched'' message
            \<or> matches_tag ''_unwatched'' message \<longrightarrow>
          (\<forall>r m s. EventsLog (RemoteDeadLetter r m s)
                     \<notin> set (fst (on_receive load parse self sender_nid msg_bytes))))
       \<and> (\<not> (matches_tag ''terminated'' message \<or> matches_tag ''_watched'' message
                \<or> matches_tag ''_unwatched'' message) \<longrightarrow>
          nid self = Some n \<longrightarrow> parse (n @ local_path) = Inr tu \<longrightarrow>
          on_receive load parse self sender_nid msg_bytes =
            ([EventsLog (RemoteDeadLetter
                 \<lparr>cell = None, uri = tu, is_local = True, ref_node = None\<rparr> message sender_nid)],
             None))"
proof (intro conjI impI allI)
  fix r m s
  assume ex: "matches_tag ''terminated'' message \<or> matches_tag ''_watched'' message
            \<or> matches_tag ''_unwatched'' message"
  show "EventsLog (RemoteDeadLetter r m s)
          \<notin> set (fst (on_receive load parse self sender_nid msg_bytes))"
  proof (cases "match_pair ''_watched'' message")
    case (Some w)
    then show ?thesis using assms by (rule no_dead_letter_when_watched)
  next
    case None
    with ex assms show ?thesis by (simp add: on_receive_def)
  qed
next
  assume "\<not> (matches_tag ''terminated'' message \<or> matches_tag ''_watched'' message
                \<or> matches_tag ''_unwatched'' message)"
    and "nid self = Some n" and "parse (n @ local_path) = Inr tu"
  with assms show "on_receive load parse self sender_nid msg_bytes =
            ([EventsLog (RemoteDeadLetter
                 \<lparr>cell = None, uri = tu, is_local = True, ref_node = None\<rparr> message sender_nid)],
             None)"
    by (simp add: on_receive_def remote_dead_letter_def matches_tag_def)
qed

text \<open>
  C5 at node B: \<^verbatim>\<open>"ping"\<close> from node A for the missing \<^verbatim>\<open>/worker\<close> is logged as
  one \<^verbatim>\<open>RemoteDeadLetter\<close>; the watch request for the same path logs none.
\<close>

theorem on_receive_missing_cell_dead_letter_witness:
  "on_receive envelopes split_address node_B ''A'' ''ping'' =
     ([EventsLog (RemoteDeadLetter
         \<lparr>cell = None, uri = \<lparr>node = Some ''B'', path = ''/worker'', root = False\<rparr>,
          is_local = True, ref_node = None\<rparr> (PStr ''ping'') ''A'')], None)
   \<and> \<not> matches_tag ''terminated'' (PStr ''ping'')
   \<and> \<not> matches_tag ''_watched'' (PStr ''ping'')
   \<and> \<not> matches_tag ''_unwatched'' (PStr ''ping'')"
proof -
  let ?u = "\<lparr>node = None, path = ''/worker'', root = False\<rparr>"
  let ?tu = "\<lparr>node = Some ''B'', path = ''/worker'', root = False\<rparr>"
  have h1: "envelopes ''ping'' = Inr (''/worker'', PStr ''ping'')"
    by (simp add: envelopes_def)
  have h2: "guardian node_B = Some empty_guardian" by (simp add: node_B_def Node_init_def)
  have h3: "split_address ''/worker'' = Inr ?u" by (simp add: split_address_def)
  have h4: "lookup_cell empty_guardian ?u = None" by (simp add: empty_guardian_def)
  have h5: "nid node_B = Some ''B''" by (simp add: node_B_def Node_init_def)
  have h6: "split_address (''B'' @ ''/worker'') = Inr ?tu" by (simp add: split_address_def)
  have h7: "\<not> matches_tag ''terminated'' (PStr ''ping'')"
           "\<not> matches_tag ''_watched'' (PStr ''ping'')"
           "\<not> matches_tag ''_unwatched'' (PStr ''ping'')"
    by (simp_all add: matches_tag_def)
  show ?thesis
    using on_receive_missing_cell_dead_letter
            [where load = envelopes and parse = split_address and msg_bytes = "''ping''"
               and sender_nid = "''A''" and n = "''B''" and tu = ?tu, OF h1 h2 h3 h4] h5 h6 h7
    by simp
qed

subsection \<open>\<^verbatim>\<open>_Msg.send_failed\<close>\<close>

text \<open>
  Claim C6. When the send of an outgoing message fails locally, exactly one local
  \<^verbatim>\<open>DeadLetter\<close> event is logged, carrying the original destination Ref and the
  original message, unless the message matches \<^verbatim>\<open>('_watched', _)\<close> or
  \<^verbatim>\<open>('_unwatched', _)\<close>; then nothing is logged. The \<^verbatim>\<open>_Msg\<close> that
  \<^verbatim>\<open>send_message\<close> hands to the hub is the pair of that Ref and that message.
\<close>

theorem send_failed_dead_letter:
  "send_failed \<lparr>ref = r, msg = m\<rparr> =
     (if matches_tag ''_watched'' m \<or> matches_tag ''_unwatched'' m then []
      else [EventsLog (DeadLetter r m)])
   \<and> (hub self \<noteq> None \<longrightarrow>
        send_message self m r = ([HubSendMessage (node (uri r)) \<lparr>ref = r, msg = m\<rparr>], None))"
  by (auto simp: send_failed_def send_message_def)

text \<open>C6 at node B: a failed \<^verbatim>\<open>"ping"\<close> to the watcher on node A.\<close>

theorem send_failed_dead_letter_witness:
  "send_failed \<lparr>ref = watcher_on_A, msg = PStr ''ping''\<rparr> =
     [EventsLog (DeadLetter watcher_on_A (PStr ''ping''))]
   \<and> send_message node_B (PStr ''ping'') watcher_on_A =
       ([HubSendMessage (Some ''A'') \<lparr>ref = watcher_on_A, msg = PStr ''ping''\<rparr>], None)"
proof -
  have h: "hub node_B \<noteq> None" by (simp add: node_B_def Node_init_def)
  have n: "\<not> matches_tag ''_watched'' (PStr ''ping'')"
          "\<not> matches_tag ''_unwatched'' (PStr ''ping'')"
    by (simp_all add: matches_tag_def)
  have u: "node (uri watcher_on_A) = Some ''A''" by (simp add: watcher_on_A_def)
  show ?thesis
    using send_failed_dead_letter [of watcher_on_A "PStr ''ping''" node_B] h n u by simp
qed

subsection \<open>\<^verbatim>\<open>stop\<close> and \<^verbatim>\<open>__getstate__\<close>\<close>

text \<open>
  Claim C7, as the code has it. \<^verbatim>\<open>stop\<close> stops the guardian before the hub and sets
  both references to \<^verbatim>\<open>None\<close>; a second \<^verbatim>\<open>stop\<close> does nothing and raises nothing.
  After \<^verbatim>\<open>stop\<close> there is no stopped state to check: \<^verbatim>\<open>send_message\<close>, and
  \<^verbatim>\<open>lookup\<close> of a uri with no node or with this node's id, raise the
  \<open>AttributeError\<close> of an attribute access on \<^verbatim>\<open>None\<close>, and \<^verbatim>\<open>lookup\<close> of a
  uri of another node behaves as before \<^verbatim>\<open>stop\<close>.
\<close>

theorem stop_then_use:
  "fst (stop self) = self\<lparr>guardian := None, hub := None\<rparr>
   \<and> snd (stop self) = (if guardian self \<noteq> None then [GuardianStop] else [])
                        @ (if hub self \<noteq> None then [HubStop] else [])
   \<and> stop (fst (stop self)) = (fst (stop self), [])
   \<and> send_message (fst (stop self)) m r = ([], Some AttributeError)
   \<and> lookup (fst (stop self)) u =
       (if \<not> truthy (node u) \<or> node u = node (own_uri self) then Inl AttributeError
        else if \<not> root u then Inl TypeError
        else Inr \<lparr>cell = None, uri = u, is_local = False, ref_node = Some (oid self)\<rparr>)"
  by (cases "guardian self"; cases "hub self")
     (simp_all add: stop_def send_message_def lookup_def)

text \<open>C7 at node A: the two stops, then a send and a lookup of \<^verbatim>\<open>A/worker\<close>.\<close>

theorem stop_then_use_witness:
  "snd (stop node_A) = [GuardianStop, HubStop]
   \<and> guardian (fst (stop node_A)) = None \<and> hub (fst (stop node_A)) = None
   \<and> stop (fst (stop node_A)) = (fst (stop node_A), [])
   \<and> send_message (fst (stop node_A)) (PStr ''ping'') watcher_on_A = ([], Some AttributeError)
   \<and> lookup (fst (stop node_A)) \<lparr>node = Some ''A'', path = ''/worker'', root = False\<rparr>
       = Inl AttributeError"
proof -
  have g: "guardian node_A \<noteq> None" "hub node_A \<noteq> None"
          "node (own_uri node_A) = Some ''A''"
    by (simp_all add: node_A_def Node_init_def)
  note t = stop_then_use [of node_A "PStr ''ping''" watcher_on_A
                            "\<lparr>node = Some ''A'', path = ''/worker'', root = False\<rparr>"]
  have 1: "snd (stop node_A) = [GuardianStop, HubStop]"
    using t [THEN conjunct2, THEN conjunct1] g by simp
  have 2: "guardian (fst (stop node_A)) = None" "hub (fst (stop node_A)) = None"
    by (simp_all add: t [THEN conjunct1])
  have 3: "stop (fst (stop node_A)) = (fst (stop node_A), [])"
    by (rule t [THEN conjunct2, THEN conjunct2, THEN conjunct1])
  have 4: "send_message (fst (stop node_A)) (PStr ''ping'') watcher_on_A
             = ([], Some AttributeError)"
    by (rule t [THEN conjunct2, THEN conjunct2, THEN conjunct2, THEN conjunct1])
  have 5: "lookup (fst (stop node_A)) \<lparr>node = Some ''A'', path = ''/worker'', root = False\<rparr>
             = Inl AttributeError"
    using t [THEN conjunct2, THEN conjunct2, THEN conjunct2, THEN conjunct2] g by simp
  show ?thesis
    using 1 2 3 4 5 by (intro conjI)
qed

text \<open>
  The claim has every \<^verbatim>\<open>lookup\<close> and \<^verbatim>\<open>send_message\<close> after \<^verbatim>\<open>stop\<close> fail
  with a "node stopped" error. At the stopped node A the lookup of the rooted uri of node
  B fails with nothing: it returns a remote Ref. The send raises the \<open>AttributeError\<close>
  of the cleared \<^verbatim>\<open>_hub\<close>.
\<close>

theorem use_after_stop_counterexample:
  "lookup (fst (stop node_A)) \<lparr>node = Some ''B'', path = [], root = True\<rparr> =
     Inr \<lparr>cell = None, uri = \<lparr>node = Some ''B'', path = [], root = True\<rparr>,
          is_local = False, ref_node = Some 1\<rparr>
   \<and> send_message (fst (stop node_A)) (PStr ''ping'') watcher_on_A = ([], Some AttributeError)"
  by (simp add: stop_def lookup_def send_message_def node_A_def Node_init_def truthy_def)

text \<open>
  Claim C8. Capturing a node by generic object serialization fails: pickling calls
  \<^verbatim>\<open>__getstate__\<close>, which raises \<open>PicklingError\<close> for every node and never hands
  back a state to serialize.
\<close>

theorem getstate_raises:
  "getstate self = Inl PicklingError \<and> (\<forall>v. getstate self \<noteq> Inr v)"
  by (simp add: getstate_def)

text \<open>C8 at node A, running and stopped.\<close>

theorem getstate_raises_witness:
  "getstate node_A = Inl PicklingError \<and> getstate (fst (stop node_A)) = Inl PicklingError"
  using getstate_raises [of node_A] getstate_raises [of "fst (stop node_A)"] by simp

section \<open>Properties of \<^verbatim>\<open>spawn_process\<close> and \<^verbatim>\<open>GenericProcessProtocol\<close>\<close>

text \<open>
  Claim C9. \<^verbatim>\<open>spawn_process\<close> with a \<^verbatim>\<open>termination_signal\<close> other than
  \<^verbatim>\<open>'KILL'\<close>, \<^verbatim>\<open>'TERM'\<close> and \<^verbatim>\<open>'INT'\<close> raises \<open>AssertionError\<close> before any
  process is spawned; with one of the three the assertion passes, the process is spawned
  once and the protocol is returned.
\<close>

theorem spawn_process_signal_check:
  "(termination_signal \<notin> {''KILL'', ''TERM'', ''INT''} \<longrightarrow>
      spawn_process executable args env termination_signal = ([], Inl AssertionError))
   \<and> (termination_signal \<in> {''KILL'', ''TERM'', ''INT''} \<longrightarrow>
      spawn_process executable args env termination_signal =
        ([SpawnProcess (GenericProcessProtocol_init termination_signal) executable
            (basename executable # args) env],
         Inr (GenericProcessProtocol_init termination_signal)))"
  by (auto simp: spawn_process_def ALLOWED_TERMINATION_SIGNALS_def Let_def)

text \<open>C9 for \<^verbatim>\<open>/bin/ls -l\<close> with the signals \<^verbatim>\<open>'HUP'\<close> and \<^verbatim>\<open>'TERM'\<close>.\<close>

theorem spawn_process_signal_check_witness:
  "spawn_process ''/bin/ls'' [''-l''] None ''HUP'' = ([], Inl AssertionError)
   \<and> spawn_process ''/bin/ls'' [''-l''] None ''TERM'' =
       ([SpawnProcess (GenericProcessProtocol_init ''TERM'') ''/bin/ls'' [''ls'', ''-l''] None],
        Inr (GenericProcessProtocol_init ''TERM''))"
proof -
  have b: "basename ''/bin/ls'' = ''ls''" by (simp add: basename_def)
  show ?thesis
    using spawn_process_signal_check [of "''HUP''" "''/bin/ls''" "[''-l'']" None]
          spawn_process_signal_check [of "''TERM''" "''/bin/ls''" "[''-l'']" None] b
    by simp
qed

text \<open>
  A protocol holds the chunks it received, in order, and is killed exactly when it was
  cancelled.
\<close>

lemma foldl_feed_fields:
  "stdout_output (foldl feed p evs) = stdout_output p @ outs evs
   \<and> stderr_output (foldl feed p evs) = stderr_output p @ errs evs
   \<and> killed (foldl feed p evs) = (killed p \<or> Cancel \<in> set evs)"
proof (induction evs arbitrary: p)
  case Nil
  then show ?case by (simp add: outs_def errs_def)
next
  case (Cons e evs)
  show ?case
    by (cases e) (simp_all add: Cons.IH outs_def errs_def outReceived_def errReceived_def kill_def)
qed

text \<open>
  Claim C10. When the process ends and the protocol was not cancelled,
  \<^verbatim>\<open>processEnded\<close> fires the errback with a \<^verbatim>\<open>ProcessFailed\<close> carrying the exit
  code and the stderr chunks received so far if the status is a
  \<^verbatim>\<open>ProcessTerminated\<close>, and only then; for every other status it fires the callback
  with the list of stdout chunks received so far. When the protocol was cancelled it fires
  neither.
\<close>

theorem processEnded_fires:
  assumes "p = foldl feed (GenericProcessProtocol_init sig) evs"
  shows "(Cancel \<in> set evs \<longrightarrow> processEnded p v = [])
       \<and> (Cancel \<notin> set evs \<longrightarrow>
            (\<forall>c s. v = ProcessTerminated c s \<longrightarrow>
                    processEnded p v = [Errback (ProcessFailed c (errs evs))])
          \<and> ((\<forall>c s. v \<noteq> ProcessTerminated c s) \<longrightarrow>
                    processEnded p v = [Callback (outs evs)]))"
proof -
  have f: "stdout_output p = outs evs" "stderr_output p = errs evs"
          "killed p = (Cancel \<in> set evs)"
    using foldl_feed_fields [of "GenericProcessProtocol_init sig" evs]
    by (simp_all add: assms GenericProcessProtocol_init_def)
  show ?thesis
    by (cases v) (simp_all add: processEnded_def f)
qed

text \<open>
  C10 for a process that wrote \<^verbatim>\<open>a\<close>, \<^verbatim>\<open>b\<close> to stdout and \<^verbatim>\<open>x\<close> to stderr and
  ended with exit code 1.
\<close>

theorem processEnded_fires_witness:
  "Cancel \<notin> set [OutData ''a'', ErrData ''x'', OutData ''b'']
   \<and> processEnded
       (foldl feed (GenericProcessProtocol_init ''KILL'')
          [OutData ''a'', ErrData ''x'', OutData ''b''])
       (ProcessTerminated (Some 1) None) = [Errback (ProcessFailed (Some 1) [''x''])]"
proof -
  let ?evs = "[OutData ''a'', ErrData ''x'', OutData ''b'']"
  have c: "Cancel \<notin> set ?evs" by simp
  have e: "errs ?evs = [''x'']" by (simp add: errs_def)
  show ?thesis
    using processEnded_fires [of "foldl feed (GenericProcessProtocol_init ''KILL'') ?evs"
                                 "''KILL''" ?evs "ProcessTerminated (Some 1) None"] c e
    by simp
qed

end
